theory Spec2Isabelle
  imports Complex_Main
begin

section \<open>Python values and errors\<close>

text \<open>
  The repository is Python.  Its \<open>float\<close> arguments are modelled as HOL reals: the
  arithmetic of the model is exact (no rounding, no overflow), which is the reading under
  which the tuning formulas are stated; the rounding of doubles is taken up in a section
  of its own below.  Every \<open>raise\<close> of the source is a value
  \<open>Inl e\<close> of the result type \<open>error + 'a\<close>; the source raises \<open>ValueError\<close> with
  a message, and Python's float division raises \<open>ZeroDivisionError\<close> on a zero divisor.
\<close>

datatype error = ValueError string | ZeroDivisionError | DegenerateModel

definition ebind :: "error + 'a \<Rightarrow> ('a \<Rightarrow> error + 'b) \<Rightarrow> error + 'b" where
  "ebind m f = (case m of Inl e \<Rightarrow> Inl e | Inr v \<Rightarrow> f v)"

definition fdiv :: "real \<Rightarrow> real \<Rightarrow> error + real" where
  \<comment> \<open>\<open>x / y\<close> on Python floats\<close>
  "fdiv x y = (if y = 0 then Inl ZeroDivisionError else Inr (x / y))"

text \<open>The dictionary \<open>{'Kp': .., 'Ki': .., 'Kd': ..}\<close> that every tuning rule returns.\<close>

record 'a gains =
  Kp :: 'a
  Ki :: 'a
  Kd :: 'a

section \<open>Tuning rules on first-order-plus-dead-time parameters (tuning\_rules.py)\<close>

definition msg_gain_zero :: string where
  "msg_gain_zero = ''Process gain (k_p) cannot be zero.''"

definition msg_zn_open_loop :: string where
  "msg_zn_open_loop = ''Ziegler-Nichols open-loop method is not applicable for systems with no dead time (theta <= 0).''"

definition msg_cohen_coon :: string where
  "msg_cohen_coon = ''Cohen-Coon method is not applicable for systems with no dead time (theta <= 0).''"

definition msg_tau_c :: string where
  "msg_tau_c = ''Closed-loop time constant (tau_c) must be positive.''"

definition ziegler_nichols_open_loop :: "real \<Rightarrow> real \<Rightarrow> real \<Rightarrow> error + real gains" where
  "ziegler_nichols_open_loop k_p tau theta =
     (if k_p = 0 then Inl (ValueError msg_gain_zero)
      else if theta \<le> 0 then Inl (ValueError msg_zn_open_loop)
      else
        ebind (fdiv (1.2 * tau) (k_p * theta)) (\<lambda>kc.
        let ti = 2.0 * theta;
            td = 0.5 * theta;
            kp_controller = kc
        in ebind (fdiv kc ti) (\<lambda>ki_controller.
        let kd_controller = kc * td
        in Inr \<lparr>Kp = kp_controller, Ki = ki_controller, Kd = kd_controller\<rparr>)))"

definition cohen_coon :: "real \<Rightarrow> real \<Rightarrow> real \<Rightarrow> error + real gains" where
  "cohen_coon k_p tau theta =
     (if k_p = 0 then Inl (ValueError msg_gain_zero)
      else if theta \<le> 0 then Inl (ValueError msg_cohen_coon)
      else
        let L = theta; T = tau; K = k_p in
        ebind (fdiv T (K * L)) (\<lambda>q1.
        ebind (fdiv 4 3) (\<lambda>q2.
        ebind (fdiv L (4 * T)) (\<lambda>q3.
        let kc = q1 * (q2 + q3) in
        ebind (fdiv (32 * T + 6 * L) (13 * T + 8 * L)) (\<lambda>q4.
        let ti = L * q4 in
        ebind (fdiv (4 * T) (11 * T + 2 * L)) (\<lambda>q5.
        let td = L * q5;
            kp_controller = kc
        in ebind (fdiv kc ti) (\<lambda>ki_controller.
        let kd_controller = kc * td
        in Inr \<lparr>Kp = kp_controller, Ki = ki_controller, Kd = kd_controller\<rparr>)))))))"

definition imc :: "real \<Rightarrow> real \<Rightarrow> real \<Rightarrow> real \<Rightarrow> error + real gains" where
  "imc k_p tau theta tau_c =
     (if k_p = 0 then Inl (ValueError msg_gain_zero)
      else if tau_c \<le> 0 then Inl (ValueError msg_tau_c)
      else
        let K = k_p; T = tau; L = theta in
        ebind (fdiv 1 K) (\<lambda>q1.
        ebind (fdiv (q1 * (T + 0.5 * L)) (tau_c + 0.5 * L)) (\<lambda>kc.
        let ti = T + 0.5 * L in
        ebind (if 2 * T + L \<noteq> 0 then fdiv (T * L) (2 * T + L) else Inr 0) (\<lambda>td.
        let kp_controller = kc in
        ebind (if ti \<noteq> 0 then fdiv kc ti else Inr 0) (\<lambda>ki_controller.
        let kd_controller = kc * td
        in Inr \<lparr>Kp = kp_controller, Ki = ki_controller, Kd = kd_controller\<rparr>)))))"


section \<open>IEEE doubles with infinities and NaN\<close>

text \<open>
  The values that the \<open>control\<close> package hands back (margins, crossover frequencies, step
  characteristics) may be infinite or NaN, and the source tests for that.  They are
  modelled by \<open>float64\<close>: a finite value is an exact real, there is one zero (read as
  \<open>+0\<close>), and arithmetic follows numpy's \<open>float64\<close>, where a division by zero yields an
  infinity or NaN instead of an exception.
\<close>

datatype float64 = Fin real | PInf | NInf | NaN

definition isinf :: "float64 \<Rightarrow> bool" where
  \<comment> \<open>\<open>np.isinf\<close>\<close>
  "isinf x = (x = PInf \<or> x = NInf)"

fun fle :: "float64 \<Rightarrow> float64 \<Rightarrow> bool" where
  \<comment> \<open>\<open>x <= y\<close>; every comparison with NaN is false\<close>
  "fle NaN y = False"
| "fle x NaN = False"
| "fle NInf y = True"
| "fle x PInf = True"
| "fle (Fin a) (Fin b) = (a \<le> b)"
| "fle PInf y = False"
| "fle x NInf = False"

fun fmul :: "float64 \<Rightarrow> float64 \<Rightarrow> float64" where
  "fmul NaN y = NaN"
| "fmul x NaN = NaN"
| "fmul (Fin a) (Fin b) = Fin (a * b)"
| "fmul (Fin a) PInf = (if a = 0 then NaN else if 0 < a then PInf else NInf)"
| "fmul (Fin a) NInf = (if a = 0 then NaN else if 0 < a then NInf else PInf)"
| "fmul PInf (Fin b) = (if b = 0 then NaN else if 0 < b then PInf else NInf)"
| "fmul NInf (Fin b) = (if b = 0 then NaN else if 0 < b then NInf else PInf)"
| "fmul PInf PInf = PInf"
| "fmul PInf NInf = NInf"
| "fmul NInf PInf = NInf"
| "fmul NInf NInf = PInf"

fun fdiv64 :: "float64 \<Rightarrow> float64 \<Rightarrow> float64" where
  "fdiv64 NaN y = NaN"
| "fdiv64 x NaN = NaN"
| "fdiv64 (Fin a) (Fin b) =
     (if b = 0 then (if a = 0 then NaN else if 0 < a then PInf else NInf) else Fin (a / b))"
| "fdiv64 (Fin a) PInf = Fin 0"
| "fdiv64 (Fin a) NInf = Fin 0"
| "fdiv64 PInf (Fin b) = (if 0 \<le> b then PInf else NInf)"
| "fdiv64 NInf (Fin b) = (if 0 \<le> b then NInf else PInf)"
| "fdiv64 PInf PInf = NaN"
| "fdiv64 PInf NInf = NaN"
| "fdiv64 NInf PInf = NaN"
| "fdiv64 NInf NInf = NaN"

section \<open>Rational transfer-function models\<close>

text \<open>
  The source takes its transfer functions from the \<open>control\<close> package, which is not part
  of the repository.  A single-input single-output model is the pair of its numerator and
  denominator coefficient lists, highest power first.
\<close>

record transfer_function =
  num :: "real list"
  den :: "real list"

fun strip_zeros :: "real list \<Rightarrow> real list" where
  \<comment> \<open>leading zero coefficients are dropped; one coefficient always remains\<close>
  "strip_zeros [] = []"
| "strip_zeros [c] = [c]"
| "strip_zeros (c # cs) = (if c = 0 then strip_zeros cs else c # cs)"

definition polyadd :: "real list \<Rightarrow> real list \<Rightarrow> real list" where
  "polyadd a b =
     (let n = max (length a) (length b)
      in map2 (+) (replicate (n - length a) 0 @ a) (replicate (n - length b) 0 @ b))"

fun polymul :: "real list \<Rightarrow> real list \<Rightarrow> real list" where
  "polymul [] b = []"
| "polymul (c # cs) b = polyadd (map ((*) c) b @ replicate (length cs) 0) (polymul cs b)"

definition tf :: "real list \<Rightarrow> real list \<Rightarrow> transfer_function" where
  \<comment> \<open>Modelled from the spec: the Rational Model of section 4.1 (\<open>ct.tf\<close>), for a
      denominator that is not identically zero.\<close>
  "tf n d = \<lparr>num = strip_zeros n, den = strip_zeros d\<rparr>"

definition tf_mul :: "transfer_function \<Rightarrow> transfer_function \<Rightarrow> transfer_function" where
  \<comment> \<open>Modelled from the spec: \<open>multiply(A, B)\<close> of section 4.1, the convolution of the
      numerators and of the denominators (\<open>A * B\<close> in the source).\<close>
  "tf_mul a b = tf (polymul (num a) (num b)) (polymul (den a) (den b))"

definition tf_add :: "transfer_function \<Rightarrow> transfer_function \<Rightarrow> transfer_function" where
  \<comment> \<open>Modelled from the spec: the sum \<open>Kp + Ki/s + Kd s\<close> of section 4.3 as one rational
      model, over the product of the denominators (\<open>A + B\<close> in the source).\<close>
  "tf_add a b =
     tf (polyadd (polymul (num a) (den b)) (polymul (num b) (den a))) (polymul (den a) (den b))"

definition feedback :: "transfer_function \<Rightarrow> transfer_function \<Rightarrow> error + transfer_function" where
  \<comment> \<open>Modelled from the spec: \<open>feedback(G, H)\<close> of section 4.1, with numerator
      \<open>G.num H.den\<close> and denominator \<open>G.den H.den + G.num H.num\<close>; it fails with
      DegenerateModel when that denominator is identically zero.\<close>
  "feedback g h =
     (let n = polymul (num g) (den h);
          d = polyadd (polymul (den h) (den g)) (polymul (num h) (num g))
      in if list_all (\<lambda>c. c = 0) d then Inl DegenerateModel else Inr (tf n d))"

fun polyval :: "real list \<Rightarrow> complex \<Rightarrow> complex" where
  "polyval [] s = 0"
| "polyval (c # cs) s = of_real c * s ^ length cs + polyval cs s"

definition frequency_response :: "transfer_function \<Rightarrow> real \<Rightarrow> complex" where
  \<comment> \<open>Modelled from the spec: \<open>frequency_response(M, w)\<close> of section 4.1, the numerator
      over the denominator at \<open>s = j w\<close>.\<close>
  "frequency_response m w = polyval (num m) (\<i> * of_real w) / polyval (den m) (\<i> * of_real w)"

definition phase_crossover :: "transfer_function \<Rightarrow> real \<Rightarrow> bool" where
  \<comment> \<open>Modelled from the spec: the phase of the response is -180 degrees at \<open>w\<close>
      (section 4.6), that is, the response lies on the negative real axis.\<close>
  "phase_crossover m w =
     (Im (frequency_response m w) = 0 \<and> Re (frequency_response m w) < 0)"

text \<open>
  The numerical routines of the \<open>control\<close> package are parameters of the model:
  \<open>ct.margin\<close> returns the gain margin, the phase margin and the two crossover
  frequencies; \<open>ct.poles\<close>, \<open>ct.step_response\<close> and \<open>ct.step_info\<close> may raise.
\<close>

record control =
  ct_margin :: "transfer_function \<Rightarrow> float64 \<times> float64 \<times> float64 \<times> float64"
  ct_poles :: "transfer_function \<Rightarrow> error + complex list"
  ct_step_response :: "transfer_function \<Rightarrow> real list \<Rightarrow> error + real list \<times> real list"
  ct_step_info :: "transfer_function \<Rightarrow> real list \<Rightarrow> real \<Rightarrow> error + (string \<rightharpoonup> float64)"

definition reports_no_crossover :: "control \<Rightarrow> bool" where
  \<comment> \<open>Modelled from the spec: section 4.6 on \<open>ct.margin\<close>, a model without a phase
      crossover has an infinite gain margin.\<close>
  "reports_no_crossover ct =
     (\<forall>m. (\<forall>w. \<not> phase_crossover m w) \<longrightarrow> fst (ct_margin ct m) = PInf)"

section \<open>The closed-loop tuning rule (tuning\_rules.py)\<close>

definition msg_no_ku :: string where
  "msg_no_ku = ''System does not have a finite ultimate gain (Ku). The Ziegler-Nichols closed-loop method is not applicable.''"

definition msg_no_tu :: string where
  "msg_no_tu = ''System does not have a finite ultimate period (Tu). The Ziegler-Nichols closed-loop method is not applicable.''"

definition ziegler_nichols_closed_loop :: "control \<Rightarrow> transfer_function \<Rightarrow> error + float64 gains" where
  "ziegler_nichols_closed_loop ct tf_model =
     (case ct_margin ct tf_model of (gm, pm, wg, wp) \<Rightarrow>
        if isinf gm \<or> fle gm (Fin 0) then Inl (ValueError msg_no_ku)
        else
          let ku = gm in
          if fle wg (Fin 0) then Inl (ValueError msg_no_tu)
          else
            let tu = fdiv64 (Fin (2 * pi)) wg;
                kc = fmul (Fin 0.6) ku;
                ti = fdiv64 tu (Fin 2.0);
                td = fdiv64 tu (Fin 8.0);
                kp_controller = kc;
                ki_controller = fdiv64 kc ti;
                kd_controller = fmul kc td
            in Inr \<lparr>Kp = kp_controller, Ki = ki_controller, Kd = kd_controller\<rparr>)"

section \<open>Performance analysis (performance\_analysis.py)\<close>

datatype pyobj = TF transfer_function | PyInt int

fun py_add :: "pyobj \<Rightarrow> pyobj \<Rightarrow> pyobj" where
  \<comment> \<open>\<open>a + b\<close>: a number next to a transfer function is first made the constant model\<close>
  "py_add (TF a) (TF b) = TF (tf_add a b)"
| "py_add (TF a) (PyInt n) = TF (tf_add a (tf [of_int n] [1]))"
| "py_add (PyInt n) (TF b) = TF (tf_add (tf [of_int n] [1]) b)"
| "py_add (PyInt m) (PyInt n) = PyInt (m + n)"

definition dict_get :: "(string \<rightharpoonup> 'a) \<Rightarrow> string \<Rightarrow> 'a \<Rightarrow> 'a" where
  \<comment> \<open>\<open>d.get(key, default)\<close>\<close>
  "dict_get d k dflt = (case d k of None \<Rightarrow> dflt | Some v \<Rightarrow> v)"

definition get_pid_controller :: "(string \<rightharpoonup> real) \<Rightarrow> transfer_function" where
  "get_pid_controller pid_params =
     (let kp = dict_get pid_params ''Kp'' 0;
          ki = dict_get pid_params ''Ki'' 0;
          kd = dict_get pid_params ''Kd'' 0;
          p = TF (tf [kp] [1]);
          i = (if ki \<noteq> 0 then TF (tf [ki] [1, 0]) else PyInt 0);
          d = (if kd \<noteq> 0 then TF (tf [kd, 0] [1]) else PyInt 0);
          controller_tf = py_add (py_add p i) d
      in case controller_tf of
           PyInt n \<Rightarrow> tf [0] [1]
         | TF c \<Rightarrow> c)"

definition diff :: "real list \<Rightarrow> real list" where
  \<comment> \<open>\<open>np.diff\<close>: \<open>x[1:] - x[:-1]\<close>\<close>
  "diff x = map2 (-) (tl x) (butlast x)"

definition trapezoid :: "real list \<Rightarrow> real list \<Rightarrow> real" where
  \<comment> \<open>\<open>np.trapezoid(y, x)\<close>: \<open>(d * (y[1:] + y[:-1]) / 2.0).sum()\<close> with \<open>d = np.diff(x)\<close>\<close>
  "trapezoid y x =
     (let d = diff x
      in sum_list (map2 (\<lambda>dx s. dx * s / 2.0) d (map2 (+) (tl y) (butlast y))))"

record indices =
  IAE :: float64
  ISE :: float64
  ITAE :: float64
  ITSE :: float64

definition calculate_performance_indices :: "real list \<Rightarrow> real list \<Rightarrow> real \<Rightarrow> indices" where
  "calculate_performance_indices time output setpoint =
     (if length time \<noteq> length output \<or> length time < 2
      then \<lparr>IAE = NaN, ISE = NaN, ITAE = NaN, ITSE = NaN\<rparr>
      else
        let error = map (\<lambda>y. setpoint - y) output;
            iae = trapezoid (map abs error) time;
            ise = trapezoid (map (\<lambda>e. e ^ 2) error) time;
            itae = trapezoid (map2 (*) time (map abs error)) time;
            itse = trapezoid (map2 (*) time (map (\<lambda>e. e ^ 2) error)) time
        in \<lparr>IAE = Fin iae, ISE = Fin ise, ITAE = Fin itae, ITSE = Fin itse\<rparr>)"

definition linspace :: "real \<Rightarrow> real \<Rightarrow> nat \<Rightarrow> real list" where
  \<comment> \<open>\<open>np.linspace(start, stop, n)\<close>: \<open>arange(0, n) * step + start\<close> with
      \<open>step = (stop - start) / (n - 1)\<close>, the last sample then set to \<open>stop\<close>\<close>
  "linspace start stop n =
     (let step = (stop - start) / real (n - 1);
          y = map (\<lambda>i. real i * step + start) [0..<n]
      in if 1 < n then y[n - 1 := stop] else y)"

definition choose_T_final :: "error + complex list \<Rightarrow> real" where
  \<comment> \<open>the \<open>try\<close> block of \<open>analyze_step_response\<close>, applied to what \<open>ct.poles\<close> gave:
      any exception inside it selects the fallback\<close>
  "choose_T_final r =
     (case r of
        Inl e \<Rightarrow> 50
      | Inr poles \<Rightarrow>
          if length poles = 0 then 50
          else
            let real_parts = sort (map (\<lambda>p. \<bar>Re p\<bar>) (filter (\<lambda>p. Re p < - 0.000001) poles))
            in case real_parts of
                 [] \<Rightarrow> 50
               | slowest_pole_decay # rest \<Rightarrow>
                   (case fdiv 10 slowest_pole_decay of Inl e \<Rightarrow> 50 | Inr t \<Rightarrow> t))"

record step_result =
  time :: "real list"
  outputs :: "real list"  \<comment> \<open>the key \<open>output\<close> of the source, a reserved word here\<close>
  info :: "string \<rightharpoonup> float64"

definition nan_info :: "string \<rightharpoonup> float64" where
  "nan_info = [''RiseTime'' \<mapsto> NaN, ''SettlingTime'' \<mapsto> NaN, ''Overshoot'' \<mapsto> NaN,
               ''Peak'' \<mapsto> NaN, ''PeakTime'' \<mapsto> NaN]"

definition analyze_step_response ::
    "control \<Rightarrow> transfer_function \<Rightarrow> (string \<rightharpoonup> real) \<Rightarrow> error + step_result" where
  "analyze_step_response ct sys_tf pid_params =
     (let controller_tf = get_pid_controller pid_params
      in if list_all (\<lambda>c. c = 0) (num controller_tf)
         then Inr \<lparr>time = [0, 1], outputs = [0, 0], info = nan_info\<rparr>
         else
           ebind (feedback (tf_mul controller_tf sys_tf) (tf [1] [1])) (\<lambda>closed_loop_tf.
           let T_final = choose_T_final (ct_poles ct closed_loop_tf);
               time_vec = linspace 0 T_final 1500
           in ebind (ct_step_response ct closed_loop_tf time_vec) (\<lambda>(t, y).
              ebind (ct_step_info ct closed_loop_tf time_vec 0.02) (\<lambda>step_info.
              Inr \<lparr>time = t, outputs = y, info = step_info\<rparr>))))"

datatype pyval = PyFloat float64 | PyStr string

record margins =
  GainMargin :: pyval
  PhaseMargin :: pyval

definition analyze_frequency_domain ::
    "control \<Rightarrow> transfer_function \<Rightarrow> (string \<rightharpoonup> real) \<Rightarrow> margins" where
  "analyze_frequency_domain ct sys_tf pid_params =
     (let controller_tf = get_pid_controller pid_params;
          open_loop_tf = tf_mul controller_tf sys_tf
      in case ct_margin ct open_loop_tf of (gm, pm, wg, wp) \<Rightarrow>
           let gain_margin_val = (if \<not> isinf gm then PyFloat gm else PyStr ''stable'');
               phase_margin_val = (if \<not> isinf pm then PyFloat pm else PyStr ''stable'')
           in \<lparr>GainMargin = gain_margin_val, PhaseMargin = phase_margin_val\<rparr>)"

section \<open>Arithmetic rounded to double precision\<close>

text \<open>
  The program computes with IEEE doubles: every decimal literal and the result of every
  arithmetic operation is rounded to the nearest double, ties to the even significand.
  \<open>round_double\<close> is that rounding for a significand of 53 bits.  The exponent range is
  not bounded here: overflow and underflow are left out.
\<close>

definition round_half_even :: "real \<Rightarrow> int" where
  "round_half_even q =
     (let f = \<lfloor>q\<rfloor>; d = q - of_int f
      in if d < 1 / 2 then f else if 1 / 2 < d then f + 1 else if even f then f else f + 1)"

definition round_double :: "real \<Rightarrow> real" where
  "round_double x =
     (if x = 0 then 0
      else let e = \<lfloor>log 2 \<bar>x\<bar>\<rfloor>; ulp = 2 powr (of_int e - 52)
           in of_int (round_half_even (x / ulp)) * ulp)"

definition unit_roundoff :: real where
  "unit_roundoff = 1 / 2 ^ 53"

text \<open>
  The two Ziegler-Nichols rules once more, line by line as above, with a rounding \<open>fl\<close>
  applied to every literal and to the result of every operation.  With the identity for
  \<open>fl\<close> they are the definitions above; with \<open>round_double\<close> they compute what the
  program computes on doubles.
\<close>

definition fdiv_fl :: "(real \<Rightarrow> real) \<Rightarrow> real \<Rightarrow> real \<Rightarrow> error + real" where
  "fdiv_fl fl x y = (if y = 0 then Inl ZeroDivisionError else Inr (fl (x / y)))"

definition ziegler_nichols_open_loop_fl ::
    "(real \<Rightarrow> real) \<Rightarrow> real \<Rightarrow> real \<Rightarrow> real \<Rightarrow> error + real gains" where
  "ziegler_nichols_open_loop_fl fl k_p tau theta =
     (if k_p = 0 then Inl (ValueError msg_gain_zero)
      else if theta \<le> 0 then Inl (ValueError msg_zn_open_loop)
      else
        ebind (fdiv_fl fl (fl (fl 1.2 * tau)) (fl (k_p * theta))) (\<lambda>kc.
        let ti = fl (fl 2.0 * theta);
            td = fl (fl 0.5 * theta);
            kp_controller = kc
        in ebind (fdiv_fl fl kc ti) (\<lambda>ki_controller.
        let kd_controller = fl (kc * td)
        in Inr \<lparr>Kp = kp_controller, Ki = ki_controller, Kd = kd_controller\<rparr>)))"

fun round64 :: "(real \<Rightarrow> real) \<Rightarrow> float64 \<Rightarrow> float64" where
  "round64 fl (Fin a) = Fin (fl a)"
| "round64 fl x = x"

definition ziegler_nichols_closed_loop_fl ::
    "(real \<Rightarrow> real) \<Rightarrow> control \<Rightarrow> transfer_function \<Rightarrow> error + float64 gains" where
  "ziegler_nichols_closed_loop_fl fl ct tf_model =
     (case ct_margin ct tf_model of (gm, pm, wg, wp) \<Rightarrow>
        if isinf gm \<or> fle gm (Fin 0) then Inl (ValueError msg_no_ku)
        else
          let ku = gm in
          if fle wg (Fin 0) then Inl (ValueError msg_no_tu)
          else
            let tu = round64 fl (fdiv64 (Fin (fl (2 * fl pi))) wg);
                kc = round64 fl (fmul (Fin (fl 0.6)) ku);
                ti = round64 fl (fdiv64 tu (Fin (fl 2.0)));
                td = round64 fl (fdiv64 tu (Fin (fl 8.0)));
                kp_controller = kc;
                ki_controller = round64 fl (fdiv64 kc ti);
                kd_controller = round64 fl (fmul kc td)
            in Inr \<lparr>Kp = kp_controller, Ki = ki_controller, Kd = kd_controller\<rparr>)"

text \<open>
  A stand-in for the \<open>control\<close> package that reports a gain margin together with a NaN
  crossover frequency.
\<close>

definition nan_control :: control where
  "nan_control =
     \<lparr>ct_margin = (\<lambda>m. (Fin 1, PInf, NaN, NaN)),
      ct_poles = (\<lambda>m. Inr []),
      ct_step_response = (\<lambda>m ts. Inr (ts, map (\<lambda>t. 0) ts)),
      ct_step_info = (\<lambda>m ts threshold. Inr Map.empty)\<rparr>"

section \<open>Reference notions for the properties\<close>

text \<open>
  The composite trapezoidal rule on a sample grid, as the textbook states it: samples
  \<open>f 0, \<dots>, f (n - 1)\<close> at the times \<open>t 0, \<dots>, t (n - 1)\<close>.
\<close>

definition trapezoid_rule :: "(nat \<Rightarrow> real) \<Rightarrow> (nat \<Rightarrow> real) \<Rightarrow> nat \<Rightarrow> real" where
  "trapezoid_rule t f n = (\<Sum>i<n - 1. (t (i + 1) - t i) * (f i + f (i + 1)) / 2)"

text \<open>
  The decay rates of a pole list: the magnitudes of the real parts of the poles whose real
  part lies below the tolerance \<open>-1e-6\<close>.
\<close>

definition decay_rates :: "complex list \<Rightarrow> real set" where
  "decay_rates ps = (\<lambda>p. \<bar>Re p\<bar>) ` {p \<in> set ps. Re p < - 0.000001}"

text \<open>
  A stand-in for the \<open>control\<close> package, used to instantiate the properties: it knows
  the margins of \<open>1 / (s + 1)^3\<close> (gain margin 8 at the frequency \<open>sqrt 3\<close>), reports
  every other model as free of crossovers, and returns the poles of \<open>1 / (s^2 + s + 2)\<close>.
\<close>

definition test_control :: control where
  "test_control =
     \<lparr>ct_margin = (\<lambda>m. if m = tf [1] [1, 3, 3, 1] then (Fin 8, PInf, Fin (sqrt 3), NaN)
                        else (PInf, PInf, NaN, NaN)),
      ct_poles = (\<lambda>m. Inr [Complex (- (1 / 2)) (sqrt 7 / 2), Complex (- (1 / 2)) (- (sqrt 7 / 2))]),
      ct_step_response = (\<lambda>m ts. Inr (ts, map (\<lambda>t. 1 / 2) ts)),
      ct_step_info = (\<lambda>m ts threshold. Inr Map.empty)\<rparr>"

section \<open>Properties of the first-order tuning rules\<close>



text \<open>
  Claim C3.  For every \<open>k_p \<noteq> 0\<close>, \<open>tau > 0\<close> and \<open>theta > 0\<close>, \<open>cohen_coon\<close> returns
  \<open>Kp = Kc\<close>, \<open>Ki = Kc / Ti\<close>, \<open>Kd = Kc Td\<close> with
  \<open>Kc = (tau / (k_p theta)) (4/3 + theta / (4 tau))\<close>,
  \<open>Ti = theta (32 tau + 6 theta) / (13 tau + 8 theta)\<close> and
  \<open>Td = theta 4 tau / (11 tau + 2 theta)\<close>; for \<open>(1.5, 4.0, 1.0)\<close> the gains are
  \<open>3.722\<close>, \<open>1.667\<close> and \<open>1.295\<close> to three decimal places (the exact values are
  \<open>67/18\<close>, \<open>5/3\<close> and \<open>268/207\<close>).
\<close>

theorem cohen_coon_formula:
  assumes "k_p \<noteq> 0" and "0 < tau" and "0 < theta"
  shows "cohen_coon k_p tau theta =
           Inr \<lparr>Kp = (tau / (k_p * theta)) * (4 / 3 + theta / (4 * tau)),
                Ki = ((tau / (k_p * theta)) * (4 / 3 + theta / (4 * tau)))
                       / (theta * ((32 * tau + 6 * theta) / (13 * tau + 8 * theta))),
                Kd = ((tau / (k_p * theta)) * (4 / 3 + theta / (4 * tau)))
                       * (theta * (4 * tau / (11 * tau + 2 * theta)))\<rparr>
         \<and> (\<exists>g. cohen_coon 1.5 4.0 1.0 = Inr g
                \<and> \<bar>Kp g - 3.722\<bar> < 0.0005 \<and> \<bar>Ki g - 1.667\<bar> < 0.0005 \<and> \<bar>Kd g - 1.295\<bar> < 0.0005)"
proof -
  have pos: "13 * tau + 8 * theta \<noteq> 0" "11 * tau + 2 * theta \<noteq> 0" "32 * tau + 6 * theta \<noteq> 0"
    using assms by auto
  have nz: "tau \<noteq> 0" "theta \<noteq> 0" using assms by auto
  have general: "cohen_coon k_p tau theta =
           Inr \<lparr>Kp = (tau / (k_p * theta)) * (4 / 3 + theta / (4 * tau)),
                Ki = ((tau / (k_p * theta)) * (4 / 3 + theta / (4 * tau)))
                       / (theta * ((32 * tau + 6 * theta) / (13 * tau + 8 * theta))),
                Kd = ((tau / (k_p * theta)) * (4 / 3 + theta / (4 * tau)))
                       * (theta * (4 * tau / (11 * tau + 2 * theta)))\<rparr>"
    using assms pos nz by (simp add: cohen_coon_def ebind_def fdiv_def Let_def)
  have exact: "cohen_coon 1.5 4.0 1.0 = Inr \<lparr>Kp = 67 / 18, Ki = 5 / 3, Kd = 268 / 207\<rparr>"
    by (simp add: cohen_coon_def ebind_def fdiv_def Let_def)
  have scenario: "\<exists>g. cohen_coon 1.5 4.0 1.0 = Inr g
                \<and> \<bar>Kp g - 3.722\<bar> < 0.0005 \<and> \<bar>Ki g - 1.667\<bar> < 0.0005 \<and> \<bar>Kd g - 1.295\<bar> < 0.0005"
    unfolding exact by simp
  from general scenario show ?thesis by blast
qed

theorem cohen_coon_formula_witness:
  "cohen_coon 1 1 1 = Inr \<lparr>Kp = 19 / 12, Ki = 19 * 21 / (12 * 38), Kd = 19 * 4 / (12 * 13)\<rparr>"
  using cohen_coon_formula [of 1 1 1] by simp

text \<open>
  Claim C4.  For every \<open>k_p \<noteq> 0\<close> and \<open>tau_c > 0\<close>, any \<open>tau\<close> and any \<open>theta \<ge> 0\<close>,
  \<open>imc\<close> returns \<open>Kp = Kc\<close>, \<open>Ki = Kc / Ti\<close> (\<open>0\<close> if \<open>Ti = 0\<close>), \<open>Kd = Kc Td\<close> with
  \<open>Kc = (1 / k_p) (tau + 0.5 theta) / (tau_c + 0.5 theta)\<close>, \<open>Ti = tau + 0.5 theta\<close> and
  \<open>Td = tau theta / (2 tau + theta)\<close> (\<open>0\<close> if \<open>2 tau + theta = 0\<close>); for
  \<open>(1.5, 4.0, 1.0, 1.5)\<close> the gains are \<open>1.5\<close>, \<open>1/3\<close> and \<open>2/3\<close>.
\<close>

theorem imc_formula:
  assumes "k_p \<noteq> 0" and "0 < tau_c" and "0 \<le> theta"
  shows "imc k_p tau theta tau_c =
           Inr \<lparr>Kp = (1 / k_p) * (tau + 0.5 * theta) / (tau_c + 0.5 * theta),
                Ki = (if tau + 0.5 * theta = 0 then 0
                      else ((1 / k_p) * (tau + 0.5 * theta) / (tau_c + 0.5 * theta)) / (tau + 0.5 * theta)),
                Kd = ((1 / k_p) * (tau + 0.5 * theta) / (tau_c + 0.5 * theta))
                       * (if 2 * tau + theta = 0 then 0 else tau * theta / (2 * tau + theta))\<rparr>
         \<and> imc 1.5 4.0 1.0 1.5 = Inr \<lparr>Kp = 1.5, Ki = 1 / 3, Kd = 2 / 3\<rparr>"
proof -
  have den: "tau_c + 0.5 * theta \<noteq> 0" using assms by auto
  have general: "imc k_p tau theta tau_c =
           Inr \<lparr>Kp = (1 / k_p) * (tau + 0.5 * theta) / (tau_c + 0.5 * theta),
                Ki = (if tau + 0.5 * theta = 0 then 0
                      else ((1 / k_p) * (tau + 0.5 * theta) / (tau_c + 0.5 * theta)) / (tau + 0.5 * theta)),
                Kd = ((1 / k_p) * (tau + 0.5 * theta) / (tau_c + 0.5 * theta))
                       * (if 2 * tau + theta = 0 then 0 else tau * theta / (2 * tau + theta))\<rparr>"
    using assms den by (simp add: imc_def ebind_def fdiv_def Let_def)
  have scenario: "imc 1.5 4.0 1.0 1.5 = Inr \<lparr>Kp = 1.5, Ki = 1 / 3, Kd = 2 / 3\<rparr>"
    by (simp add: imc_def ebind_def fdiv_def Let_def)
  from general scenario show ?thesis by blast
qed

theorem imc_formula_witness:
  "imc 2 1 2 1 = Inr \<lparr>Kp = 1 / 2, Ki = 1 / 4, Kd = 1 / 4\<rparr>"
  using imc_formula [of 2 1 2 1] by simp




section \<open>Properties of the closed-loop tuning rule\<close>

lemma zncl_unfold:
  assumes "ct_margin ct tf_model = (gm, pm, wg, wp)"
  shows "ziegler_nichols_closed_loop ct tf_model =
     (if isinf gm \<or> fle gm (Fin 0) then Inl (ValueError msg_no_ku)
      else if fle wg (Fin 0) then Inl (ValueError msg_no_tu)
      else Inr \<lparr>Kp = fmul (Fin 0.6) gm,
                Ki = fdiv64 (fmul (Fin 0.6) gm) (fdiv64 (fdiv64 (Fin (2 * pi)) wg) (Fin 2)),
                Kd = fmul (fmul (Fin 0.6) gm) (fdiv64 (fdiv64 (Fin (2 * pi)) wg) (Fin 8))\<rparr>)"
  using assms by (simp add: ziegler_nichols_closed_loop_def Let_def)

text \<open>The response of \<open>1 / (s + 1)\<close> never meets the negative real axis.\<close>

lemma first_order_no_crossover: "\<not> phase_crossover (tf [1] [1, 1]) w"
proof -
  have "frequency_response (tf [1] [1, 1]) w = 1 / (\<i> * of_real w + 1)"
    by (simp add: frequency_response_def tf_def)
  also have "\<dots> = Complex (1 / (1 + w^2)) (- w / (1 + w^2))"
    by (simp add: complex_eq_iff Re_divide Im_divide power2_eq_square)
  finally have fr: "frequency_response (tf [1] [1, 1]) w = Complex (1 / (1 + w^2)) (- w / (1 + w^2))" .
  have "0 < 1 + w^2" by (simp add: add_pos_nonneg)
  then have "0 < 1 / (1 + w^2)" by simp
  then show ?thesis by (simp add: phase_crossover_def fr)
qed

text \<open>The response of \<open>1 / (s + 1)^3\<close> is \<open>-1/8\<close> at the frequency \<open>sqrt 3\<close>.\<close>

lemma third_order_crossover: "phase_crossover (tf [1] [1, 3, 3, 1]) (sqrt 3)"
proof -
  define z where "z = \<i> * complex_of_real (sqrt 3)"
  have zz: "z * z = - 3"
    by (simp add: z_def complex_eq_iff)
  have "polyval [1, 3, 3, 1] z = (z * z) * z + 3 * (z * z) + 3 * z + 1"
    by (simp add: power3_eq_cube power2_eq_square)
  also have "\<dots> = - 8" unfolding zz by simp
  finally have pv: "polyval [1, 3, 3, 1] z = - 8" .
  have coeffs: "num (tf [1] [1, 3, 3, 1]) = [1]" "den (tf [1] [1, 3, 3, 1]) = [1, 3, 3, 1]"
    by (simp_all add: tf_def)
  have "frequency_response (tf [1] [1, 3, 3, 1]) (sqrt 3) = polyval [1] z / polyval [1, 3, 3, 1] z"
    unfolding frequency_response_def coeffs z_def ..
  also have "\<dots> = - (1 / 8)" unfolding pv by simp
  finally show ?thesis by (simp add: phase_crossover_def)
qed

lemma test_control_reports: "reports_no_crossover test_control"
  unfolding reports_no_crossover_def test_control_def
  using third_order_crossover by auto

lemma test_margin:
  "ct_margin test_control (tf [1] [1, 3, 3, 1]) = (Fin 8, PInf, Fin (sqrt 3), NaN)"
  by (simp add: test_control_def)

lemma test_zncl:
  "ziegler_nichols_closed_loop test_control (tf [1] [1, 3, 3, 1]) =
     Inr \<lparr>Kp = Fin 4.8, Ki = Fin (4.8 * sqrt 3 / pi), Kd = Fin (1.2 * pi / sqrt 3)\<rparr>"
  by (simp add: zncl_unfold [OF test_margin] isinf_def)

text \<open>
  Claim C5.  Let \<open>ct.margin\<close> give the gain margin \<open>gm\<close> and the phase-crossover
  frequency \<open>wg\<close> of the plant.  \<open>ziegler_nichols_closed_loop\<close> fails, and then with one
  of its two "not applicable" errors, exactly when \<open>gm\<close> is infinite or \<open>gm \<le> 0\<close> or
  \<open>wg \<le> 0\<close>.  Otherwise it returns \<open>Kp = 0.6 gm\<close>, \<open>Ki = Kp / (Tu / 2)\<close>,
  \<open>Kd = Kp Tu / 8\<close> with \<open>Tu = 2 pi / wg\<close>, which for finite positive \<open>gm\<close> and \<open>wg\<close>
  are these real numbers.  For the plant \<open>1 / (s + 1)\<close>, which has no phase crossover, it
  fails with the error for a missing ultimate gain, given that \<open>ct.margin\<close> reports models
  without a phase crossover with an infinite gain margin.
\<close>

theorem zn_closed_loop_not_applicable:
  assumes "ct_margin ct tf_model = (gm, pm, wg, wp)"
  shows "(ziegler_nichols_closed_loop ct tf_model = Inl (ValueError msg_no_ku)
            \<or> ziegler_nichols_closed_loop ct tf_model = Inl (ValueError msg_no_tu))
           = (isinf gm \<or> fle gm (Fin 0) \<or> fle wg (Fin 0))
       \<and> isl (ziegler_nichols_closed_loop ct tf_model)
           = (isinf gm \<or> fle gm (Fin 0) \<or> fle wg (Fin 0))
       \<and> (\<not> (isinf gm \<or> fle gm (Fin 0) \<or> fle wg (Fin 0)) \<longrightarrow>
            ziegler_nichols_closed_loop ct tf_model =
              Inr \<lparr>Kp = fmul (Fin 0.6) gm,
                   Ki = fdiv64 (fmul (Fin 0.6) gm) (fdiv64 (fdiv64 (Fin (2 * pi)) wg) (Fin 2)),
                   Kd = fmul (fmul (Fin 0.6) gm) (fdiv64 (fdiv64 (Fin (2 * pi)) wg) (Fin 8))\<rparr>)
       \<and> (\<forall>ku w. gm = Fin ku \<and> wg = Fin w \<and> 0 < ku \<and> 0 < w \<longrightarrow>
            ziegler_nichols_closed_loop ct tf_model =
              Inr \<lparr>Kp = Fin (0.6 * ku),
                   Ki = Fin (0.6 * ku / ((2 * pi / w) / 2)),
                   Kd = Fin (0.6 * ku * ((2 * pi / w) / 8))\<rparr>)
       \<and> (reports_no_crossover ct \<longrightarrow>
            ziegler_nichols_closed_loop ct (tf [1] [1, 1]) = Inl (ValueError msg_no_ku))"
proof -
  note u = zncl_unfold [OF assms]
  have fails: "(ziegler_nichols_closed_loop ct tf_model = Inl (ValueError msg_no_ku)
            \<or> ziegler_nichols_closed_loop ct tf_model = Inl (ValueError msg_no_tu))
           = (isinf gm \<or> fle gm (Fin 0) \<or> fle wg (Fin 0))"
    unfolding u by simp
  have raises: "isl (ziegler_nichols_closed_loop ct tf_model)
           = (isinf gm \<or> fle gm (Fin 0) \<or> fle wg (Fin 0))"
    unfolding u by simp
  have returns: "\<not> (isinf gm \<or> fle gm (Fin 0) \<or> fle wg (Fin 0)) \<longrightarrow>
            ziegler_nichols_closed_loop ct tf_model =
              Inr \<lparr>Kp = fmul (Fin 0.6) gm,
                   Ki = fdiv64 (fmul (Fin 0.6) gm) (fdiv64 (fdiv64 (Fin (2 * pi)) wg) (Fin 2)),
                   Kd = fmul (fmul (Fin 0.6) gm) (fdiv64 (fdiv64 (Fin (2 * pi)) wg) (Fin 8))\<rparr>"
    unfolding u by simp
  have finite: "\<forall>ku w. gm = Fin ku \<and> wg = Fin w \<and> 0 < ku \<and> 0 < w \<longrightarrow>
            ziegler_nichols_closed_loop ct tf_model =
              Inr \<lparr>Kp = Fin (0.6 * ku),
                   Ki = Fin (0.6 * ku / ((2 * pi / w) / 2)),
                   Kd = Fin (0.6 * ku * ((2 * pi / w) / 8))\<rparr>"
    unfolding u by (auto simp: isinf_def)
  have plant: "reports_no_crossover ct \<longrightarrow>
            ziegler_nichols_closed_loop ct (tf [1] [1, 1]) = Inl (ValueError msg_no_ku)"
  proof
    assume r: "reports_no_crossover ct"
    have "fst (ct_margin ct (tf [1] [1, 1])) = PInf"
      using r first_order_no_crossover unfolding reports_no_crossover_def by blast
    then obtain pm' wg' wp' where "ct_margin ct (tf [1] [1, 1]) = (PInf, pm', wg', wp')"
      by (metis prod.collapse)
    then show "ziegler_nichols_closed_loop ct (tf [1] [1, 1]) = Inl (ValueError msg_no_ku)"
      by (simp add: zncl_unfold isinf_def)
  qed
  from fails raises returns finite plant show ?thesis by blast
qed

theorem zn_closed_loop_not_applicable_witness:
  "ziegler_nichols_closed_loop test_control (tf [1] [1, 3, 3, 1]) =
     Inr \<lparr>Kp = Fin 4.8, Ki = Fin (4.8 * sqrt 3 / pi), Kd = Fin (1.2 * pi / sqrt 3)\<rparr>
   \<and> ziegler_nichols_closed_loop test_control (tf [1] [1, 1]) = Inl (ValueError msg_no_ku)"
  using zn_closed_loop_not_applicable [OF test_margin] test_control_reports
  by (simp add: isinf_def)

text \<open>
  Over the reals, that is, with no rounding, the gains of both Ziegler-Nichols rules satisfy
  \<open>Ki Kd = Kp^2 / 4\<close> without error, since both rules choose \<open>Ti = 4 Td\<close>.
\<close>

lemma zn_gain_product_exact:
  "(ziegler_nichols_open_loop k_p tau theta = Inr g \<longrightarrow> Ki g * Kd g = (Kp g)\<^sup>2 / 4)
   \<and> (ziegler_nichols_closed_loop ct tf_model = Inr h
        \<and> Kp h = Fin a \<and> Ki h = Fin b \<and> Kd h = Fin c \<longrightarrow> b * c = a\<^sup>2 / 4)"
proof -
  have ol: "ziegler_nichols_open_loop k_p tau theta = Inr g \<longrightarrow> Ki g * Kd g = (Kp g)\<^sup>2 / 4"
    by (auto simp: ziegler_nichols_open_loop_def ebind_def fdiv_def Let_def power2_eq_square
             split: if_splits)
  have cl: "ziegler_nichols_closed_loop ct tf_model = Inr h
        \<and> Kp h = Fin a \<and> Ki h = Fin b \<and> Kd h = Fin c \<longrightarrow> b * c = a\<^sup>2 / 4"
  proof
    assume h: "ziegler_nichols_closed_loop ct tf_model = Inr h
        \<and> Kp h = Fin a \<and> Ki h = Fin b \<and> Kd h = Fin c"
    obtain gm pm wg wp where m: "ct_margin ct tf_model = (gm, pm, wg, wp)"
      by (metis prod.collapse)
    note u = zncl_unfold [OF m]
    from h u obtain ku where ku: "gm = Fin ku" "0 < ku"
      by (cases gm) (auto simp: isinf_def split: if_splits)
    from h u ku obtain w where w: "wg = Fin w" "0 < w"
      by (cases wg) (auto simp: isinf_def split: if_splits)
    from h u ku w have a: "a = 0.6 * ku" and b: "b = 0.6 * ku / ((2 * pi / w) / 2)"
      and c: "c = 0.6 * ku * ((2 * pi / w) / 8)"
      by (auto simp: isinf_def split: if_splits)
    show "b * c = a\<^sup>2 / 4"
      unfolding a b c using w by (simp add: power2_eq_square field_simps)
  qed
  from ol cl show ?thesis by blast
qed

section \<open>Properties of the performance analysis\<close>

lemma trapezoid_nth:
  assumes "length y = length x"
  shows "trapezoid y x = (\<Sum>i<length x - 1. (x ! (i + 1) - x ! i) * (y ! i + y ! (i + 1)) / 2)"
proof -
  let ?zs = "map2 (\<lambda>dx s. dx * s / 2) (diff x) (map2 (+) (tl y) (butlast y))"
  have len: "length ?zs = length x - 1"
    using assms by (simp add: diff_def)
  have nth: "?zs ! i = (x ! (i + 1) - x ! i) * (y ! i + y ! (i + 1)) / 2" if "i < length x - 1" for i
    using that assms by (simp add: diff_def nth_tl nth_butlast add.commute)
  have "trapezoid y x = sum_list ?zs"
    by (simp add: trapezoid_def Let_def)
  also have "\<dots> = (\<Sum>i<length ?zs. ?zs ! i)"
    by (simp only: sum_list_sum_nth atLeast0LessThan)
  also have "\<dots> = (\<Sum>i<length x - 1. (x ! (i + 1) - x ! i) * (y ! i + y ! (i + 1)) / 2)"
    unfolding len by (rule sum.cong) (simp_all add: nth)
  finally show ?thesis .
qed

lemma trapezoid_rule_cong:
  assumes "\<And>i. i < n \<Longrightarrow> f i = g i"
  shows "trapezoid_rule t f n = trapezoid_rule t g n"
  unfolding trapezoid_rule_def by (rule sum.cong) (simp_all add: assms)

lemma trapezoid_samples:
  assumes "length y = length x" and "\<And>i. i < length x \<Longrightarrow> y ! i = f i"
  shows "trapezoid y x = trapezoid_rule (\<lambda>i. x ! i) f (length x)"
proof -
  have "trapezoid y x = trapezoid_rule (\<lambda>i. x ! i) (\<lambda>i. y ! i) (length x)"
    by (simp add: trapezoid_nth [OF assms(1)] trapezoid_rule_def)
  also have "\<dots> = trapezoid_rule (\<lambda>i. x ! i) f (length x)"
    by (rule trapezoid_rule_cong) (simp add: assms(2))
  finally show ?thesis .
qed

text \<open>
  Claim C6.  \<open>calculate_performance_indices\<close> has no failing branch.  When the two arrays
  differ in length or hold fewer than two samples, all four indices are NaN.  Otherwise
  \<open>IAE\<close>, \<open>ISE\<close>, \<open>ITAE\<close> and \<open>ITSE\<close> are the trapezoidal-rule integrals over the sample
  grid of \<open>|e|\<close>, \<open>e^2\<close>, \<open>t |e|\<close> and \<open>t e^2\<close> for the error \<open>e = setpoint - output\<close>.
\<close>

theorem performance_indices_trapezoid:
  "(length ts \<noteq> length ys \<or> length ts < 2 \<longrightarrow>
      calculate_performance_indices ts ys sp = \<lparr>IAE = NaN, ISE = NaN, ITAE = NaN, ITSE = NaN\<rparr>)
   \<and> (length ts = length ys \<and> 2 \<le> length ts \<longrightarrow>
      calculate_performance_indices ts ys sp =
        \<lparr>IAE = Fin (trapezoid_rule (\<lambda>i. ts ! i) (\<lambda>i. \<bar>sp - ys ! i\<bar>) (length ts)),
         ISE = Fin (trapezoid_rule (\<lambda>i. ts ! i) (\<lambda>i. (sp - ys ! i)\<^sup>2) (length ts)),
         ITAE = Fin (trapezoid_rule (\<lambda>i. ts ! i) (\<lambda>i. ts ! i * \<bar>sp - ys ! i\<bar>) (length ts)),
         ITSE = Fin (trapezoid_rule (\<lambda>i. ts ! i) (\<lambda>i. ts ! i * (sp - ys ! i)\<^sup>2) (length ts))\<rparr>)"
proof -
  have short: "length ts \<noteq> length ys \<or> length ts < 2 \<longrightarrow>
      calculate_performance_indices ts ys sp = \<lparr>IAE = NaN, ISE = NaN, ITAE = NaN, ITSE = NaN\<rparr>"
    by (simp add: calculate_performance_indices_def)
  have long: "length ts = length ys \<and> 2 \<le> length ts \<longrightarrow>
      calculate_performance_indices ts ys sp =
        \<lparr>IAE = Fin (trapezoid_rule (\<lambda>i. ts ! i) (\<lambda>i. \<bar>sp - ys ! i\<bar>) (length ts)),
         ISE = Fin (trapezoid_rule (\<lambda>i. ts ! i) (\<lambda>i. (sp - ys ! i)\<^sup>2) (length ts)),
         ITAE = Fin (trapezoid_rule (\<lambda>i. ts ! i) (\<lambda>i. ts ! i * \<bar>sp - ys ! i\<bar>) (length ts)),
         ITSE = Fin (trapezoid_rule (\<lambda>i. ts ! i) (\<lambda>i. ts ! i * (sp - ys ! i)\<^sup>2) (length ts))\<rparr>"
  proof
    assume h: "length ts = length ys \<and> 2 \<le> length ts"
    let ?err = "map (\<lambda>y. sp - y) ys"
    have iae: "trapezoid (map abs ?err) ts = trapezoid_rule (\<lambda>i. ts ! i) (\<lambda>i. \<bar>sp - ys ! i\<bar>) (length ts)"
      using h by (intro trapezoid_samples) simp_all
    have ise: "trapezoid (map (\<lambda>e. e ^ 2) ?err) ts
                 = trapezoid_rule (\<lambda>i. ts ! i) (\<lambda>i. (sp - ys ! i)\<^sup>2) (length ts)"
      using h by (intro trapezoid_samples) simp_all
    have itae: "trapezoid (map2 (*) ts (map abs ?err)) ts
                 = trapezoid_rule (\<lambda>i. ts ! i) (\<lambda>i. ts ! i * \<bar>sp - ys ! i\<bar>) (length ts)"
      using h by (intro trapezoid_samples) simp_all
    have itse: "trapezoid (map2 (*) ts (map (\<lambda>e. e ^ 2) ?err)) ts
                 = trapezoid_rule (\<lambda>i. ts ! i) (\<lambda>i. ts ! i * (sp - ys ! i)\<^sup>2) (length ts)"
      using h by (intro trapezoid_samples) simp_all
    have cond: "\<not> (length ts \<noteq> length ys \<or> length ts < 2)" using h by auto
    show "calculate_performance_indices ts ys sp =
        \<lparr>IAE = Fin (trapezoid_rule (\<lambda>i. ts ! i) (\<lambda>i. \<bar>sp - ys ! i\<bar>) (length ts)),
         ISE = Fin (trapezoid_rule (\<lambda>i. ts ! i) (\<lambda>i. (sp - ys ! i)\<^sup>2) (length ts)),
         ITAE = Fin (trapezoid_rule (\<lambda>i. ts ! i) (\<lambda>i. ts ! i * \<bar>sp - ys ! i\<bar>) (length ts)),
         ITSE = Fin (trapezoid_rule (\<lambda>i. ts ! i) (\<lambda>i. ts ! i * (sp - ys ! i)\<^sup>2) (length ts))\<rparr>"
      unfolding calculate_performance_indices_def Let_def iae ise itae itse
      by (simp only: cond if_False)
  qed
  from short long show ?thesis by blast
qed

theorem performance_indices_trapezoid_witness:
  "calculate_performance_indices [0] [0] 1 = \<lparr>IAE = NaN, ISE = NaN, ITAE = NaN, ITSE = NaN\<rparr>
   \<and> calculate_performance_indices [0, 1, 2] [0, 1 / 2, 1] 1 =
       \<lparr>IAE = Fin 1, ISE = Fin (3 / 4), ITAE = Fin (1 / 2), ITSE = Fin (1 / 4)\<rparr>"
  using performance_indices_trapezoid [of "[0]" "[0]" 1]
        performance_indices_trapezoid [of "[0, 1, 2]" "[0, 1 / 2, 1]" 1]
  by (simp add: trapezoid_rule_def lessThan_Suc eval_nat_numeral power2_eq_square)

lemma zero_controller:
  "get_pid_controller [''Kp'' \<mapsto> 0, ''Ki'' \<mapsto> 0, ''Kd'' \<mapsto> 0] = \<lparr>num = [0], den = [1]\<rparr>"
  by (simp add: get_pid_controller_def dict_get_def tf_def tf_add_def polyadd_def Let_def)

lemma unit_controller: "get_pid_controller [''Kp'' \<mapsto> 1] = \<lparr>num = [1], den = [1]\<rparr>"
  by (simp add: get_pid_controller_def dict_get_def tf_def tf_add_def polyadd_def Let_def)

text \<open>
  Claim C7.  For every plant (and whatever the \<open>control\<close> package computes),
  \<open>analyze_step_response\<close> with the gains \<open>Kp = Ki = Kd = 0\<close> does not raise: it returns
  the times \<open>[0, 1]\<close>, the outputs \<open>[0, 0]\<close> and the characteristics \<open>RiseTime\<close>,
  \<open>SettlingTime\<close>, \<open>Overshoot\<close>, \<open>Peak\<close> and \<open>PeakTime\<close>, all NaN.
\<close>

theorem zero_gains_degenerate:
  "analyze_step_response ct sys_tf [''Kp'' \<mapsto> 0, ''Ki'' \<mapsto> 0, ''Kd'' \<mapsto> 0] =
     Inr \<lparr>time = [0, 1], outputs = [0, 0],
          info = [''RiseTime'' \<mapsto> NaN, ''SettlingTime'' \<mapsto> NaN, ''Overshoot'' \<mapsto> NaN,
                  ''Peak'' \<mapsto> NaN, ''PeakTime'' \<mapsto> NaN]\<rparr>"
proof -
  let ?pid = "[''Kp'' \<mapsto> 0, ''Ki'' \<mapsto> 0, ''Kd'' \<mapsto> (0::real)]"
  have "num (get_pid_controller ?pid) = [0]"
    by (simp only: zero_controller transfer_function.simps)
  then have zero: "list_all (\<lambda>c. c = 0) (num (get_pid_controller ?pid))"
    by simp
  have "analyze_step_response ct sys_tf ?pid =
          Inr \<lparr>time = [0, 1], outputs = [0, 0], info = nan_info\<rparr>"
    unfolding analyze_step_response_def Let_def using zero by (simp only: if_True)
  then show ?thesis by (simp only: nan_info_def)
qed

lemma hd_sort_Min:
  fixes xs :: "real list"
  assumes "xs \<noteq> []"
  shows "hd (sort xs) = Min (set xs)"
proof -
  obtain y ys where s: "sort xs = y # ys"
    using assms by (cases "sort xs") (auto dest: arg_cong [where f = length])
  have "sorted (sort xs)" by simp
  then have "sorted (y # ys)" by (simp only: s)
  then have le: "\<forall>z \<in> set (y # ys). y \<le> z" by auto
  have "set (sort xs) = set xs" by simp
  then have "set (y # ys) = set xs" by (simp only: s)
  with le have "Min (set xs) = y"
    by (intro Min_eqI) auto
  then show ?thesis by (simp add: s)
qed

lemma choose_T_final_poles:
  "choose_T_final (Inr ps) = (if decay_rates ps = {} then 50 else 10 / Min (decay_rates ps))"
proof -
  let ?rs = "map (\<lambda>p. \<bar>Re p\<bar>) (filter (\<lambda>p. Re p < - 0.000001) ps)"
  have set_rs: "set ?rs = decay_rates ps" by (auto simp: decay_rates_def)
  show ?thesis
  proof (cases "?rs = []")
    case True
    then have "decay_rates ps = {}" using set_rs by (metis set_empty)
    moreover have "sort ?rs = []" using True by simp
    ultimately show ?thesis by (simp add: choose_T_final_def Let_def)
  next
    case False
    then have ne: "decay_rates ps \<noteq> {}" using set_rs by (metis set_empty)
    have psne: "ps \<noteq> []" using False by auto
    obtain r rest where s: "sort ?rs = r # rest"
      using False by (cases "sort ?rs") (auto dest: arg_cong [where f = length])
    have r: "r = Min (decay_rates ps)"
      using hd_sort_Min [OF False] s set_rs by simp
    have "r \<in> decay_rates ps" using r ne by (simp add: decay_rates_def)
    then have rnz: "r \<noteq> 0" by (auto simp: decay_rates_def)
    have len: "length ps \<noteq> 0" using psne by simp
    have "choose_T_final (Inr ps) =
            (case sort ?rs of [] \<Rightarrow> 50
             | d # rest \<Rightarrow> (case fdiv 10 d of Inl e \<Rightarrow> 50 | Inr t \<Rightarrow> t))"
      unfolding choose_T_final_def Let_def by (simp only: sum.case len if_False)
    also have "\<dots> = (case fdiv 10 r of Inl e \<Rightarrow> 50 | Inr t \<Rightarrow> t)"
      by (simp only: s list.case)
    also have "\<dots> = 10 / r" using rnz by (simp add: fdiv_def)
    finally show ?thesis using ne r by simp
  qed
qed

lemma linspace_length: "length (linspace a b n) = n"
  by (simp add: linspace_def Let_def)

lemma linspace_nth:
  assumes "i < n"
  shows "linspace a b n ! i = a + real i * ((b - a) / real (n - 1))"
proof (cases "1 < n \<and> i = n - 1")
  case True
  then have "real i * ((b - a) / real (n - 1)) = b - a" by simp
  then show ?thesis using True assms by (simp add: linspace_def Let_def)
next
  case False
  then show ?thesis using assms by (auto simp: linspace_def Let_def nth_list_update)
qed

lemma test_closed_loop:
  "feedback (tf_mul (get_pid_controller [''Kp'' \<mapsto> 1]) (tf [1] [1, 1, 1])) (tf [1] [1])
     = Inr \<lparr>num = [1], den = [1, 1, 2]\<rparr>"
  by (simp add: unit_controller feedback_def tf_mul_def tf_def polyadd_def Let_def)

lemma test_decay_rates:
  "decay_rates [Complex (- (1 / 2)) (sqrt 7 / 2), Complex (- (1 / 2)) (- (sqrt 7 / 2))] = {1 / 2}"
proof -
  let ?a = "Complex (- (1 / 2)) (sqrt 7 / 2)" and ?b = "Complex (- (1 / 2)) (- (sqrt 7 / 2))"
  have "{p \<in> set [?a, ?b]. Re p < - 0.000001} = {?a, ?b}"
    by auto
  then have "decay_rates [?a, ?b] = (\<lambda>p. \<bar>Re p\<bar>) ` {?a, ?b}"
    unfolding decay_rates_def by (rule arg_cong)
  also have "\<dots> = {1 / 2}" by simp
  finally show ?thesis .
qed

text \<open>
  Claim C8.  The horizon \<open>T_final\<close> is \<open>50\<close> when \<open>ct.poles\<close> raises, when there is no
  pole, and when no pole has a real part below \<open>-1e-6\<close>; otherwise it is \<open>10 / r\<close> for the
  smallest magnitude \<open>r\<close> of the real part among the poles with real part below \<open>-1e-6\<close>.
  With a controller that is not zero, \<open>analyze_step_response\<close> takes the poles of the
  closed loop, and hands \<open>ct.step_response\<close> and \<open>ct.step_info\<close> the 1500 samples
  \<open>i T_final / 1499\<close>, \<open>i = 0, \<dots>, 1499\<close>, which run from \<open>0\<close> to \<open>T_final\<close>.
\<close>

theorem simulation_horizon:
  "choose_T_final (Inl e) = 50
   \<and> choose_T_final (Inr []) = 50
   \<and> choose_T_final (Inr ps) = (if decay_rates ps = {} then 50 else 10 / Min (decay_rates ps))
   \<and> (\<not> list_all (\<lambda>c. c = 0) (num (get_pid_controller pid_params))
        \<and> feedback (tf_mul (get_pid_controller pid_params) sys_tf) (tf [1] [1]) = Inr cl
        \<and> T = choose_T_final (ct_poles ct cl) \<longrightarrow>
      analyze_step_response ct sys_tf pid_params =
        ebind (ct_step_response ct cl (linspace 0 T 1500)) (\<lambda>(t, y).
        ebind (ct_step_info ct cl (linspace 0 T 1500) 0.02) (\<lambda>step_info.
        Inr \<lparr>time = t, outputs = y, info = step_info\<rparr>))
      \<and> length (linspace 0 T 1500) = 1500
      \<and> (\<forall>i<1500. linspace 0 T 1500 ! i = real i * (T / 1499))
      \<and> linspace 0 T 1500 ! 0 = 0 \<and> linspace 0 T 1500 ! 1499 = T)"
proof -
  have raised: "choose_T_final (Inl e) = 50"
    by (simp add: choose_T_final_def)
  have none: "choose_T_final (Inr []) = 50"
    by (simp add: choose_T_final_def)
  have grid: "\<forall>i<1500. linspace 0 T 1500 ! i = real i * (T / 1499)"
    by (simp add: linspace_nth)
  have ends: "linspace 0 T 1500 ! 0 = 0 \<and> linspace 0 T 1500 ! 1499 = T"
    by (simp add: linspace_nth)
  have sim: "\<not> list_all (\<lambda>c. c = 0) (num (get_pid_controller pid_params))
        \<and> feedback (tf_mul (get_pid_controller pid_params) sys_tf) (tf [1] [1]) = Inr cl
        \<and> T = choose_T_final (ct_poles ct cl) \<longrightarrow>
      analyze_step_response ct sys_tf pid_params =
        ebind (ct_step_response ct cl (linspace 0 T 1500)) (\<lambda>(t, y).
        ebind (ct_step_info ct cl (linspace 0 T 1500) 0.02) (\<lambda>step_info.
        Inr \<lparr>time = t, outputs = y, info = step_info\<rparr>))"
    by (simp add: analyze_step_response_def Let_def ebind_def)
  from raised none choose_T_final_poles [of ps] grid ends sim linspace_length [of 0 T 1500]
  show ?thesis by blast
qed

theorem simulation_horizon_witness:
  "choose_T_final (ct_poles test_control \<lparr>num = [1], den = [1, 1, 2]\<rparr>) = 20
   \<and> analyze_step_response test_control (tf [1] [1, 1, 1]) [''Kp'' \<mapsto> 1] =
       Inr \<lparr>time = linspace 0 20 1500, outputs = map (\<lambda>t. 1 / 2) (linspace 0 20 1500),
            info = Map.empty\<rparr>
   \<and> length (linspace 0 20 1500) = 1500
   \<and> linspace 0 20 1500 ! 1499 = 20"
proof -
  have poles: "ct_poles test_control \<lparr>num = [1], den = [1, 1, 2]\<rparr>
                 = Inr [Complex (- (1 / 2)) (sqrt 7 / 2), Complex (- (1 / 2)) (- (sqrt 7 / 2))]"
    by (simp add: test_control_def)
  have nonzero: "\<not> list_all (\<lambda>c. c = 0) (num (get_pid_controller [''Kp'' \<mapsto> 1]))"
    by (simp add: unit_controller)
  note h = simulation_horizon [of _ "[Complex (- (1 / 2)) (sqrt 7 / 2), Complex (- (1 / 2)) (- (sqrt 7 / 2))]"
      "[''Kp'' \<mapsto> 1]" "tf [1] [1, 1, 1]" "\<lparr>num = [1], den = [1, 1, 2]\<rparr>" 20 test_control]
  from h have T: "choose_T_final (ct_poles test_control \<lparr>num = [1], den = [1, 1, 2]\<rparr>) = 20"
    unfolding poles test_decay_rates by simp
  from h nonzero test_closed_loop T show ?thesis
    by (simp add: ebind_def test_control_def)
qed

text \<open>
  Claim C9.  \<open>analyze_frequency_domain\<close> computes the margins of the open loop, controller
  times plant.  Its \<open>GainMargin\<close> is the sentinel string exactly when the gain margin is
  infinite, and the gain margin itself otherwise; its \<open>PhaseMargin\<close> is the sentinel
  exactly when the phase margin is infinite, and the phase margin itself otherwise.
\<close>

theorem frequency_margins_sentinel:
  assumes "ct_margin ct (tf_mul (get_pid_controller pid_params) sys_tf) = (gm, pm, wg, wp)"
  shows "(GainMargin (analyze_frequency_domain ct sys_tf pid_params) = PyStr ''stable'') = isinf gm
       \<and> (\<not> isinf gm \<longrightarrow> GainMargin (analyze_frequency_domain ct sys_tf pid_params) = PyFloat gm)
       \<and> (PhaseMargin (analyze_frequency_domain ct sys_tf pid_params) = PyStr ''stable'') = isinf pm
       \<and> (\<not> isinf pm \<longrightarrow> PhaseMargin (analyze_frequency_domain ct sys_tf pid_params) = PyFloat pm)"
  using assms by (simp add: analyze_frequency_domain_def Let_def)

theorem frequency_margins_sentinel_witness:
  "GainMargin (analyze_frequency_domain test_control (tf [1] [1, 3, 3, 1]) [''Kp'' \<mapsto> 1])
     = PyFloat (Fin 8)
   \<and> PhaseMargin (analyze_frequency_domain test_control (tf [1] [1, 3, 3, 1]) [''Kp'' \<mapsto> 1])
     = PyStr ''stable''"
proof -
  have ol: "tf_mul (get_pid_controller [''Kp'' \<mapsto> 1]) (tf [1] [1, 3, 3, 1]) = tf [1] [1, 3, 3, 1]"
    by (simp add: unit_controller tf_mul_def tf_def polyadd_def)
  have m: "ct_margin test_control (tf_mul (get_pid_controller [''Kp'' \<mapsto> 1]) (tf [1] [1, 3, 3, 1]))
             = (Fin 8, PInf, Fin (sqrt 3), NaN)"
    unfolding ol by (rule test_margin)
  show ?thesis
    using frequency_margins_sentinel [OF m] by (simp add: isinf_def)
qed

section \<open>Properties of the rules on doubles\<close>

lemma round_half_even_error: "\<bar>of_int (round_half_even q) - q\<bar> \<le> 1 / 2"
proof -
  define f where "f = \<lfloor>q\<rfloor>"
  have bounds: "of_int f \<le> q" "q < of_int f + 1"
    unfolding f_def by linarith+
  show ?thesis
    unfolding round_half_even_def Let_def f_def [symmetric]
    using bounds by (auto simp: abs_if)
qed

lemma round_half_even_unique:
  assumes "\<bar>q - of_int m\<bar> < 1 / 2"
  shows "round_half_even q = m"
proof (cases "of_int m \<le> q")
  case True
  then have "\<lfloor>q\<rfloor> = m" using assms by (intro floor_unique) (auto simp: abs_if)
  then show ?thesis using assms True by (auto simp: round_half_even_def Let_def abs_if)
next
  case False
  then have f: "\<lfloor>q\<rfloor> = m - 1" using assms by (intro floor_unique) (auto simp: abs_if)
  have "1 / 2 < q - of_int (m - 1)" using assms False by (auto simp: abs_if)
  then show ?thesis unfolding round_half_even_def Let_def f by auto
qed

lemma exponent_bounds:
  assumes "x \<noteq> 0"
  shows "2 powr of_int \<lfloor>log 2 \<bar>x\<bar>\<rfloor> \<le> \<bar>x\<bar>"
proof -
  have "of_int \<lfloor>log 2 \<bar>x\<bar>\<rfloor> \<le> log 2 \<bar>x\<bar>" by simp
  then have "2 powr of_int \<lfloor>log 2 \<bar>x\<bar>\<rfloor> \<le> 2 powr log 2 \<bar>x\<bar>"
    by (simp only: powr_le_cancel_iff [of 2] one_less_numeral_iff semiring_norm)
  also have "\<dots> = \<bar>x\<bar>" using assms by simp
  finally show ?thesis .
qed

text \<open>Rounding changes a value by at most the unit roundoff, relatively.\<close>

lemma round_double_error: "\<bar>round_double x - x\<bar> \<le> unit_roundoff * \<bar>x\<bar>"
proof (cases "x = 0")
  case True
  then show ?thesis by (simp add: round_double_def)
next
  case False
  define e where "e = \<lfloor>log 2 \<bar>x\<bar>\<rfloor>"
  define ulp :: real where "ulp = 2 powr (of_int e - 52)"
  have ulp_pos: "0 < ulp" by (simp add: ulp_def)
  have rd: "round_double x = of_int (round_half_even (x / ulp)) * ulp"
    using False by (simp add: round_double_def Let_def e_def ulp_def)
  have "round_double x - x = (of_int (round_half_even (x / ulp)) - x / ulp) * ulp"
    using ulp_pos by (simp add: rd left_diff_distrib)
  then have "\<bar>round_double x - x\<bar> = \<bar>of_int (round_half_even (x / ulp)) - x / ulp\<bar> * ulp"
    using ulp_pos by (simp add: abs_mult)
  also have "\<dots> \<le> (1 / 2) * ulp"
    using round_half_even_error [of "x / ulp"] ulp_pos by (intro mult_right_mono) simp_all
  also have "(1 / 2) * ulp = 2 powr of_int e / 2 ^ 53"
    by (simp add: ulp_def powr_diff)
  also have "\<dots> \<le> \<bar>x\<bar> / 2 ^ 53"
    using exponent_bounds [OF False] by (simp add: e_def divide_right_mono)
  finally show ?thesis by (simp add: unit_roundoff_def)
qed

text \<open>Rounding commutes with scaling by a power of two.\<close>

lemma round_double_twice: "round_double (2 * x) = 2 * round_double x"
proof (cases "x = 0")
  case True
  then show ?thesis by (simp add: round_double_def)
next
  case False
  define e where "e = \<lfloor>log 2 \<bar>x\<bar>\<rfloor>"
  define ulp :: real where "ulp = 2 powr (of_int e - 52)"
  have ulp_pos: "0 < ulp" by (simp add: ulp_def)
  have rd: "round_double x = of_int (round_half_even (x / ulp)) * ulp"
    using False by (simp add: round_double_def Let_def e_def ulp_def)
  have "log 2 \<bar>2 * x\<bar> = 1 + log 2 \<bar>x\<bar>"
    using False by (simp add: abs_mult log_mult)
  then have e2: "\<lfloor>log 2 \<bar>2 * x\<bar>\<rfloor> = e + 1"
    by (simp add: e_def)
  have u2: "2 powr (of_int (e + 1) - 52) = 2 * ulp"
    by (simp add: ulp_def powr_add powr_diff)
  have "round_double (2 * x) = of_int (round_half_even (2 * x / (2 * ulp))) * (2 * ulp)"
    using False unfolding round_double_def Let_def e2 u2 by simp
  also have "2 * x / (2 * ulp) = x / ulp" by simp
  finally show ?thesis by (simp add: rd)
qed

lemma round_double_half: "round_double (x / 2) = round_double x / 2"
  using round_double_twice [of "x / 2"] by simp

lemma round_double_eighth: "round_double (x / 8) = round_double x / 8"
proof -
  have "round_double (x / 8) = round_double (((x / 2) / 2) / 2)" by simp
  also have "\<dots> = ((round_double x / 2) / 2) / 2" by (simp only: round_double_half)
  finally show ?thesis by simp
qed

lemma round_double_eq_0_iff: "round_double x = 0 \<longleftrightarrow> x = 0"
proof
  assume z: "round_double x = 0"
  show "x = 0"
  proof (rule ccontr)
    assume nz: "x \<noteq> 0"
    have "\<bar>x\<bar> \<le> \<bar>x\<bar> / 2 ^ 53" using round_double_error [of x] z by (simp add: unit_roundoff_def)
    moreover have "\<bar>x\<bar> / 2 ^ 53 < \<bar>x\<bar>" using nz by simp
    ultimately show False by simp
  qed
qed (simp add: round_double_def)

lemma round_double_pos: "0 < x \<Longrightarrow> 0 < round_double x"
proof -
  assume p: "0 < x"
  have "\<bar>round_double x - x\<bar> \<le> x / 2 ^ 53"
    using round_double_error [of x] p by (simp add: unit_roundoff_def)
  moreover have "x / 2 ^ 53 < x" using p by simp
  ultimately show ?thesis by linarith
qed

text \<open>Evaluation of the rounding at a value whose binary exponent is known.\<close>

lemma round_double_eval:
  assumes "2 powr of_int e \<le> \<bar>x\<bar>" and "\<bar>x\<bar> < 2 powr (of_int e + 1)"
  shows "round_double x = of_int (round_half_even (x / 2 powr (of_int e - 52))) * 2 powr (of_int e - 52)"
proof -
  have pos: "0 < \<bar>x\<bar>" using assms(1) powr_gt_zero [of 2 "of_int e"] by linarith
  then have nz: "x \<noteq> 0" by auto
  have "of_int e \<le> log 2 \<bar>x\<bar>" using assms(1) pos by (simp add: le_log_iff)
  moreover have "log 2 \<bar>x\<bar> < of_int e + 1" using assms(2) pos by (simp add: log_less_iff)
  ultimately have "\<lfloor>log 2 \<bar>x\<bar>\<rfloor> = e" by linarith
  then show ?thesis using nz by (simp add: round_double_def Let_def)
qed

lemma round_doubleI:
  assumes "2 powr of_int e \<le> \<bar>x\<bar>" and "\<bar>x\<bar> < 2 powr (of_int e + 1)"
    and "\<bar>x / 2 powr (of_int e - 52) - of_int m\<bar> < 1 / 2"
  shows "round_double x = of_int m * 2 powr (of_int e - 52)"
  by (simp only: round_double_eval [OF assms(1,2)] round_half_even_unique [OF assms(3)])

text \<open>The roundings met when the open-loop rule runs on the doubles 1, 1 and 3.\<close>

lemma rd_lit_1_2: "round_double (6 / 5) = 5404319552844595 / 4503599627370496"
  using round_doubleI [of 0 "6 / 5" 5404319552844595] by (simp add: powr_neg_numeral)

lemma rd_lit_2: "round_double 2 = 2"
  using round_doubleI [of 1 "2" 4503599627370496] by (simp add: powr_neg_numeral)

lemma rd_lit_half: "round_double (1 / 2) = 1 / 2"
  using round_doubleI [of "- 1" "1 / 2" 4503599627370496] by (simp add: powr_neg_numeral)

lemma rd_step_a: "round_double (5404319552844595 / 4503599627370496) = 5404319552844595 / 4503599627370496"
  using round_doubleI [of 0 "5404319552844595 / 4503599627370496" 5404319552844595] by (simp add: powr_neg_numeral)

lemma rd_step_b: "round_double 3 = 3"
  using round_doubleI [of 1 "3" 6755399441055744] by (simp add: powr_neg_numeral)

lemma rd_step_kc: "round_double (5404319552844595 / 13510798882111488) = 7205759403792793 / 18014398509481984"
  using round_doubleI [of "- 2" "5404319552844595 / 13510798882111488" 7205759403792793] by (simp add: powr_neg_numeral)

lemma rd_step_ti: "round_double 6 = 6"
  using round_doubleI [of 2 "6" 6755399441055744] by (simp add: powr_neg_numeral)

lemma rd_step_td: "round_double (3 / 2) = 3 / 2"
  using round_doubleI [of 0 "3 / 2" 6755399441055744] by (simp add: powr_neg_numeral)

lemma rd_step_ki: "round_double (7205759403792793 / 108086391056891904) = 4803839602528529 / 72057594037927936"
  using round_doubleI [of "- 4" "7205759403792793 / 108086391056891904" 4803839602528529] by (simp add: powr_neg_numeral)

lemma rd_step_kd: "round_double (21617278211378379 / 36028797018963968) = 5404319552844595 / 9007199254740992"
  using round_doubleI [of "- 1" "21617278211378379 / 36028797018963968" 5404319552844595] by (simp add: powr_neg_numeral)

lemma rd_step_prod: "round_double (25961484292674136821596590950755 / 649037107316853453566312041152512) = 5764607523034235 / 144115188075855872"
  using round_doubleI [of "- 5" "25961484292674136821596590950755 / 649037107316853453566312041152512" 5764607523034235] by (simp add: powr_neg_numeral)

lemma rd_step_sq: "round_double (51922968585348267638393678740849 / 324518553658426726783156020576256) = 2882303761517117 / 18014398509481984"
  using round_doubleI [of "- 3" "51922968585348267638393678740849 / 324518553658426726783156020576256" 5764607523034234] by (simp add: powr_neg_numeral)

lemma rd_step_quarter: "round_double (2882303761517117 / 72057594037927936) = 2882303761517117 / 72057594037927936"
  using round_doubleI [of "- 5" "2882303761517117 / 72057594037927936" 5764607523034234] by (simp add: powr_neg_numeral)

lemma rd_lit_8: "round_double 8 = 8"
  using round_doubleI [of 3 "8" 4503599627370496] by (simp add: powr_neg_numeral)

lemma rd_lit_1: "round_double 1 = 1"
  using round_doubleI [of 0 "1" 4503599627370496] by (simp add: powr_neg_numeral)

lemma rd_lit_0_6: "round_double (3 / 5) = 5404319552844595 / 9007199254740992"
  using round_doubleI [of "- 1" "3 / 5" 5404319552844595] by (simp add: powr_neg_numeral)

lemma rd_step_kc_nan: "round_double (5404319552844595 / 9007199254740992) = 5404319552844595 / 9007199254740992"
  using round_doubleI [of "- 1" "5404319552844595 / 9007199254740992" 5404319552844595] by (simp add: powr_neg_numeral)

text \<open>
  Both rules divide by \<open>Ti = 2 t\<close> and multiply by \<open>Td = t / 2\<close> for one and the same
  \<open>t\<close>; the two results are then rounded separately.
\<close>

lemma rounded_product_bound:
  assumes "t \<noteq> 0"
  shows "\<bar>round_double (kc / (2 * t)) * round_double (kc * (t / 2)) - kc\<^sup>2 / 4\<bar>
           \<le> (2 * unit_roundoff + unit_roundoff\<^sup>2) * (kc\<^sup>2 / 4)"
proof -
  let ?A = "kc / (2 * t)" and ?B = "kc * (t / 2)" and ?u = unit_roundoff
  have u0: "0 \<le> ?u" by (simp add: unit_roundoff_def)
  have AB: "?A * ?B = kc\<^sup>2 / 4"
    using assms by (simp add: power2_eq_square)
  have "\<bar>?A\<bar> * \<bar>?B\<bar> = \<bar>?A * ?B\<bar>" by (simp only: abs_mult)
  also have "\<dots> = kc\<^sup>2 / 4" unfolding AB by simp
  finally have absAB: "\<bar>?A\<bar> * \<bar>?B\<bar> = kc\<^sup>2 / 4" .
  have eA: "\<bar>round_double ?A - ?A\<bar> \<le> ?u * \<bar>?A\<bar>" by (rule round_double_error)
  have eB: "\<bar>round_double ?B - ?B\<bar> \<le> ?u * \<bar>?B\<bar>" by (rule round_double_error)
  have "\<bar>round_double ?B\<bar> \<le> \<bar>round_double ?B - ?B\<bar> + \<bar>?B\<bar>" by linarith
  also have "\<dots> \<le> ?u * \<bar>?B\<bar> + \<bar>?B\<bar>" using eB by linarith
  finally have rB: "\<bar>round_double ?B\<bar> \<le> (1 + ?u) * \<bar>?B\<bar>" by (simp add: algebra_simps)
  have "round_double ?A * round_double ?B - ?A * ?B
          = (round_double ?A - ?A) * round_double ?B + ?A * (round_double ?B - ?B)"
    by (simp add: algebra_simps)
  then have "\<bar>round_double ?A * round_double ?B - ?A * ?B\<bar>
          \<le> \<bar>(round_double ?A - ?A) * round_double ?B\<bar> + \<bar>?A * (round_double ?B - ?B)\<bar>"
    by (simp only: abs_triangle_ineq)
  also have "\<dots> = \<bar>round_double ?A - ?A\<bar> * \<bar>round_double ?B\<bar> + \<bar>?A\<bar> * \<bar>round_double ?B - ?B\<bar>"
    by (simp only: abs_mult)
  also have "\<dots> \<le> (?u * \<bar>?A\<bar>) * ((1 + ?u) * \<bar>?B\<bar>) + \<bar>?A\<bar> * (?u * \<bar>?B\<bar>)"
    using eA eB rB u0 by (intro add_mono mult_mono) simp_all
  also have "\<dots> = (2 * ?u + ?u\<^sup>2) * (\<bar>?A\<bar> * \<bar>?B\<bar>)"
  proof -
    have "(v * p) * ((1 + v) * q) + p * (v * q) = (2 * v + v\<^sup>2) * (p * q)" for v p q :: real
      by (simp add: algebra_simps power2_eq_square)
    then show ?thesis .
  qed
  finally have "\<bar>round_double ?A * round_double ?B - ?A * ?B\<bar>
                  \<le> (2 * ?u + ?u\<^sup>2) * (\<bar>?A\<bar> * \<bar>?B\<bar>)" .
  then show ?thesis by (simp only: absAB AB)
qed

text \<open>With no rounding the two definitions are the ones over the reals.\<close>

lemma open_loop_fl_id:
  "ziegler_nichols_open_loop_fl (\<lambda>x. x) k_p tau theta = ziegler_nichols_open_loop k_p tau theta"
  by (simp add: ziegler_nichols_open_loop_fl_def ziegler_nichols_open_loop_def fdiv_fl_def fdiv_def)

lemma round64_id: "round64 (\<lambda>x. x) v = v"
  by (cases v) simp_all

lemma closed_loop_fl_id:
  "ziegler_nichols_closed_loop_fl (\<lambda>x. x) ct tf_model = ziegler_nichols_closed_loop ct tf_model"
  by (cases "ct_margin ct tf_model")
     (simp add: ziegler_nichols_closed_loop_fl_def ziegler_nichols_closed_loop_def round64_id Let_def)

lemma open_loop_fl_returns:
  assumes "ziegler_nichols_open_loop_fl round_double k_p tau theta = Inr g"
  shows "\<exists>kc t. t \<noteq> 0 \<and> Kp g = kc \<and> Ki g = round_double (kc / (2 * t))
           \<and> Kd g = round_double (kc * (t / 2))"
proof -
  from assms have th: "0 < theta"
    by (auto simp: ziegler_nichols_open_loop_fl_def split: if_splits)
  define t where "t = round_double theta"
  have t: "t \<noteq> 0" using th by (simp add: t_def round_double_eq_0_iff)
  have ti: "round_double (round_double (20 / 10) * theta) = 2 * t"
    by (simp add: rd_lit_2 round_double_twice t_def)
  have td: "round_double (round_double (5 / 10) * theta) = t / 2"
    using round_double_half [of theta] by (simp add: rd_lit_half t_def)
  from assms show ?thesis
    unfolding ziegler_nichols_open_loop_fl_def Let_def ti td
    using t by (auto simp: ebind_def fdiv_fl_def split: if_splits)
qed

lemma closed_loop_fl_unfold:
  assumes "ct_margin ct tf_model = (gm, pm, wg, wp)"
  shows "ziegler_nichols_closed_loop_fl round_double ct tf_model =
     (if isinf gm \<or> fle gm (Fin 0) then Inl (ValueError msg_no_ku)
      else if fle wg (Fin 0) then Inl (ValueError msg_no_tu)
      else
        let tu = round64 round_double (fdiv64 (Fin (round_double (2 * round_double pi))) wg);
            kc = round64 round_double (fmul (Fin (round_double (6 / 10))) gm);
            ti = round64 round_double (fdiv64 tu (Fin 2));
            td = round64 round_double (fdiv64 tu (Fin 8))
        in Inr \<lparr>Kp = kc, Ki = round64 round_double (fdiv64 kc ti),
                Kd = round64 round_double (fmul kc td)\<rparr>)"
  using assms
  by (simp add: ziegler_nichols_closed_loop_fl_def Let_def rd_lit_2 rd_lit_8)

lemma closed_loop_fl_returns:
  assumes "ziegler_nichols_closed_loop_fl round_double ct tf_model = Inr h"
    and "Kp h = Fin a" and "Ki h = Fin b" and "Kd h = Fin c"
  shows "\<exists>t. t \<noteq> 0 \<and> b = round_double (a / (2 * t)) \<and> c = round_double (a * (t / 2))"
proof -
  obtain gm pm wg wp where m: "ct_margin ct tf_model = (gm, pm, wg, wp)"
    by (metis prod.collapse)
  note u = closed_loop_fl_unfold [OF m]
  from assms u obtain ku where ku: "gm = Fin ku" "0 < ku"
    by (cases gm) (auto simp: isinf_def Let_def split: if_splits)
  from assms u ku obtain w where w: "wg = Fin w" "0 < w"
    by (cases wg) (auto simp: isinf_def Let_def round_double_eq_0_iff split: if_splits)
  define s where "s = round_double (round_double (round_double (2 * round_double pi) / w))"
  have s: "s \<noteq> 0" using w by (simp add: s_def round_double_eq_0_iff)
  have ti: "round_double (round_double (round_double (2 * round_double pi) / w) / 2) = 2 * (s / 4)"
    by (simp add: round_double_half s_def)
  have td: "round_double (round_double (round_double (2 * round_double pi) / w) / 8) = (s / 4) / 2"
    by (simp add: round_double_eighth s_def)
  have h: "h = \<lparr>Kp = Fin (round_double (round_double (6 / 10) * ku)),
                Ki = round64 round_double
                       (fdiv64 (Fin (round_double (round_double (6 / 10) * ku))) (Fin (2 * (s / 4)))),
                Kd = Fin (round_double (round_double (round_double (6 / 10) * ku) * ((s / 4) / 2)))\<rparr>"
    using assms(1) ku w unfolding u by (simp add: isinf_def Let_def ti td)
  from h assms(2) have a: "a = round_double (round_double (6 / 10) * ku)" by simp
  from h assms(3) s have b: "b = round_double (a / (2 * (s / 4)))" by (simp add: a)
  from h assms(4) have c: "c = round_double (a * ((s / 4) / 2))" by (simp add: a)
  from s b c show ?thesis by (intro exI [of _ "s / 4"]) simp
qed

text \<open>
  Claim C10 says that the returned gains satisfy \<open>Ki Kd = Kp^2 / 4\<close> exactly.  On doubles
  they do not: for process gain 1, time constant 1 and dead time 3 the open-loop rule
  returns the doubles printed as \<open>0.39999999999999997\<close>, \<open>0.06666666666666667\<close> and
  \<open>0.6\<close>, and \<open>Ki Kd\<close> differs from \<open>Kp^2 / 4\<close>, both as real numbers and when the two
  sides are themselves computed on doubles (\<open>0.04\<close> against \<open>0.039999999999999994\<close>).  Nor
  need the closed-loop rule return numbers: a NaN crossover frequency next to a gain margin
  of 1 yields the gains \<open>Ki = Kd = NaN\<close>, of which the identity does not hold.
\<close>

theorem zn_gain_product_counterexample:
  "ziegler_nichols_open_loop_fl round_double 1 1 3 =
     Inr \<lparr>Kp = 7205759403792793 / 18014398509481984,
          Ki = 4803839602528529 / 72057594037927936,
          Kd = 5404319552844595 / 9007199254740992\<rparr>
   \<and> (4803839602528529 / 72057594037927936) * (5404319552844595 / 9007199254740992)
       \<noteq> ((7205759403792793 / 18014398509481984)\<^sup>2 / 4 :: real)
   \<and> round_double ((4803839602528529 / 72057594037927936) * (5404319552844595 / 9007199254740992))
       \<noteq> round_double (round_double ((7205759403792793 / 18014398509481984)\<^sup>2) / 4)
   \<and> ziegler_nichols_closed_loop_fl round_double nan_control (tf [1] [1, 1, 1]) =
       Inr \<lparr>Kp = Fin (5404319552844595 / 9007199254740992), Ki = NaN, Kd = NaN\<rparr>
   \<and> fmul NaN NaN
       \<noteq> fdiv64 (fmul (Fin (5404319552844595 / 9007199254740992))
                       (Fin (5404319552844595 / 9007199254740992))) (Fin 4)"
proof -
  have run: "ziegler_nichols_open_loop_fl round_double 1 1 3 =
     Inr \<lparr>Kp = 7205759403792793 / 18014398509481984,
          Ki = 4803839602528529 / 72057594037927936,
          Kd = 5404319552844595 / 9007199254740992\<rparr>"
    by (simp add: ziegler_nichols_open_loop_fl_def ebind_def fdiv_fl_def Let_def
          rd_lit_1_2 rd_lit_2 rd_lit_half rd_step_a rd_step_b rd_step_kc rd_step_ti rd_step_td
          rd_step_ki rd_step_kd)
  have exact: "(4803839602528529 / 72057594037927936) * (5404319552844595 / 9007199254740992)
       \<noteq> ((7205759403792793 / 18014398509481984)\<^sup>2 / 4 :: real)"
    by (simp add: power2_eq_square)
  have doubles: "round_double ((4803839602528529 / 72057594037927936) * (5404319552844595 / 9007199254740992))
       \<noteq> round_double (round_double ((7205759403792793 / 18014398509481984)\<^sup>2) / 4)"
    by (simp add: power2_eq_square rd_step_prod rd_step_sq rd_step_quarter)
  have m: "ct_margin nan_control (tf [1] [1, 1, 1]) = (Fin 1, PInf, NaN, NaN)"
    by (simp add: nan_control_def)
  have nan: "ziegler_nichols_closed_loop_fl round_double nan_control (tf [1] [1, 1, 1]) =
               Inr \<lparr>Kp = Fin (5404319552844595 / 9007199254740992), Ki = NaN, Kd = NaN\<rparr>"
    by (simp add: closed_loop_fl_unfold [OF m] isinf_def Let_def rd_lit_0_6 rd_step_kc_nan)
  from run exact doubles nan show ?thesis by simp
qed

text \<open>
  Claim C10, amended.  On doubles, overflow and underflow aside, the gains that
  \<open>ziegler_nichols_open_loop\<close> returns, and the gains that \<open>ziegler_nichols_closed_loop\<close>
  returns when they are finite numbers, satisfy \<open>Ki Kd = Kp^2 / 4\<close> up to rounding: the
  two sides differ by at most \<open>(2 u + u^2) Kp^2 / 4\<close> for the unit roundoff \<open>u = 2^-53\<close>.
  Both rules set \<open>Ti = 4 Td\<close> without error; the roundings of \<open>Ki\<close> and of \<open>Kd\<close> are what
  separates the two sides.
\<close>

theorem zn_gain_product_rounded:
  "(ziegler_nichols_open_loop_fl round_double k_p tau theta = Inr g \<longrightarrow>
      \<bar>Ki g * Kd g - (Kp g)\<^sup>2 / 4\<bar> \<le> (2 * unit_roundoff + unit_roundoff\<^sup>2) * ((Kp g)\<^sup>2 / 4))
   \<and> (ziegler_nichols_closed_loop_fl round_double ct tf_model = Inr h
        \<and> Kp h = Fin a \<and> Ki h = Fin b \<and> Kd h = Fin c \<longrightarrow>
      \<bar>b * c - a\<^sup>2 / 4\<bar> \<le> (2 * unit_roundoff + unit_roundoff\<^sup>2) * (a\<^sup>2 / 4))"
proof -
  have ol: "ziegler_nichols_open_loop_fl round_double k_p tau theta = Inr g \<longrightarrow>
      \<bar>Ki g * Kd g - (Kp g)\<^sup>2 / 4\<bar> \<le> (2 * unit_roundoff + unit_roundoff\<^sup>2) * ((Kp g)\<^sup>2 / 4)"
  proof
    assume "ziegler_nichols_open_loop_fl round_double k_p tau theta = Inr g"
    then obtain kc t where "t \<noteq> 0" "Kp g = kc" "Ki g = round_double (kc / (2 * t))"
        "Kd g = round_double (kc * (t / 2))"
      using open_loop_fl_returns by blast
    then show "\<bar>Ki g * Kd g - (Kp g)\<^sup>2 / 4\<bar>
                 \<le> (2 * unit_roundoff + unit_roundoff\<^sup>2) * ((Kp g)\<^sup>2 / 4)"
      using rounded_product_bound [of t kc] by simp
  qed
  have cl: "ziegler_nichols_closed_loop_fl round_double ct tf_model = Inr h
        \<and> Kp h = Fin a \<and> Ki h = Fin b \<and> Kd h = Fin c \<longrightarrow>
      \<bar>b * c - a\<^sup>2 / 4\<bar> \<le> (2 * unit_roundoff + unit_roundoff\<^sup>2) * (a\<^sup>2 / 4)"
  proof
    assume "ziegler_nichols_closed_loop_fl round_double ct tf_model = Inr h
        \<and> Kp h = Fin a \<and> Ki h = Fin b \<and> Kd h = Fin c"
    then obtain t where "t \<noteq> 0" "b = round_double (a / (2 * t))" "c = round_double (a * (t / 2))"
      using closed_loop_fl_returns by blast
    then show "\<bar>b * c - a\<^sup>2 / 4\<bar> \<le> (2 * unit_roundoff + unit_roundoff\<^sup>2) * (a\<^sup>2 / 4)"
      using rounded_product_bound [of t a] by simp
  qed
  from ol cl show ?thesis by blast
qed

theorem zn_gain_product_rounded_witness:
  "\<bar>(4803839602528529 / 72057594037927936) * (5404319552844595 / 9007199254740992)
      - (7205759403792793 / 18014398509481984)\<^sup>2 / 4\<bar>
     \<le> (2 * unit_roundoff + unit_roundoff\<^sup>2) * ((7205759403792793 / 18014398509481984)\<^sup>2 / 4)
   \<and> (\<exists>a b c. ziegler_nichols_closed_loop_fl round_double test_control (tf [1] [1, 3, 3, 1])
                  = Inr \<lparr>Kp = Fin a, Ki = Fin b, Kd = Fin c\<rparr>
        \<and> \<bar>b * c - a\<^sup>2 / 4\<bar> \<le> (2 * unit_roundoff + unit_roundoff\<^sup>2) * (a\<^sup>2 / 4))"
proof -
  let ?g = "\<lparr>Kp = 7205759403792793 / 18014398509481984,
             Ki = 4803839602528529 / 72057594037927936,
             Kd = 5404319552844595 / 9007199254740992 :: real\<rparr>"
  let ?tu = "round_double (round_double (2 * round_double pi) / sqrt 3)"
  let ?a = "round_double (round_double (6 / 10) * 8)"
  let ?b = "round_double (?a / round_double (?tu / 2))"
  let ?c = "round_double (?a * round_double (?tu / 8))"
  let ?h = "\<lparr>Kp = Fin ?a, Ki = Fin ?b, Kd = Fin ?c\<rparr>"
  have open_loop: "ziegler_nichols_open_loop_fl round_double 1 1 3 = Inr ?g"
    by (simp add: ziegler_nichols_open_loop_fl_def ebind_def fdiv_fl_def Let_def
          rd_lit_1_2 rd_lit_2 rd_lit_half rd_step_a rd_step_b rd_step_kc rd_step_ti rd_step_td
          rd_step_ki rd_step_kd)
  have closed_loop: "ziegler_nichols_closed_loop_fl round_double test_control (tf [1] [1, 3, 3, 1]) = Inr ?h"
    by (simp add: closed_loop_fl_unfold [OF test_margin] isinf_def Let_def round_double_eq_0_iff)
  note inst = zn_gain_product_rounded [of 1 1 3 ?g test_control "tf [1] [1, 3, 3, 1]" ?h ?a ?b ?c]
  from inst open_loop have first: "\<bar>Ki ?g * Kd ?g - (Kp ?g)\<^sup>2 / 4\<bar>
      \<le> (2 * unit_roundoff + unit_roundoff\<^sup>2) * ((Kp ?g)\<^sup>2 / 4)"
    by blast
  from inst closed_loop have second: "\<bar>?b * ?c - ?a\<^sup>2 / 4\<bar>
      \<le> (2 * unit_roundoff + unit_roundoff\<^sup>2) * (?a\<^sup>2 / 4)"
    by simp
  from first have "\<bar>(4803839602528529 / 72057594037927936) * (5404319552844595 / 9007199254740992)
      - (7205759403792793 / 18014398509481984)\<^sup>2 / 4\<bar>
     \<le> (2 * unit_roundoff + unit_roundoff\<^sup>2) * ((7205759403792793 / 18014398509481984 :: real)\<^sup>2 / 4)"
    by (simp only: gains.simps)
  moreover from closed_loop second
  have "\<exists>a b c. ziegler_nichols_closed_loop_fl round_double test_control (tf [1] [1, 3, 3, 1])
                  = Inr \<lparr>Kp = Fin a, Ki = Fin b, Kd = Fin c\<rparr>
        \<and> \<bar>b * c - a\<^sup>2 / 4\<bar> \<le> (2 * unit_roundoff + unit_roundoff\<^sup>2) * (a\<^sup>2 / 4)"
    by blast
  ultimately show ?thesis by blast
qed

end
